theory Spec2Isabelle
  imports Complex_Main
begin

section \<open>Steady Navier-Stokes simulation: sapphire/simulations/navier_stokes.py\<close>

text \<open>
  The module is a plugin of a finite-element framework. Its methods build symbolic
  expressions with the operators of the form language (\<^verbatim>\<open>grad\<close>, \<^verbatim>\<open>div\<close>,
  \<^verbatim>\<open>sym\<close>, \<^verbatim>\<open>inner\<close>, \<^verbatim>\<open>dot\<close> and the overloaded Python operators
  \<^verbatim>\<open>*\<close>, \<^verbatim>\<open>+\<close>, \<^verbatim>\<open>-\<close>, \<^verbatim>\<open>/\<close>), read attributes of the simulation object
  that the base class provides as dictionaries indexed by field name, and, in
  \<^verbatim>\<open>solve\<close>, mutate the data of one function of the post-processing solution.

  The embedding keeps these levels apart:
  \<^item> an expression is a term: one constructor for each operator the module calls,
    so that the term records the expression exactly as the source writes it;
  \<^item> a dictionary is a map, and a missing key is the error \<open>KeyError\<close>;
  \<^item> the data of a function lives in a heap indexed by address, so that
    \<^verbatim>\<open>p.assign(...)\<close> is an update of the heap at the address of \<^verbatim>\<open>p\<close>.
\<close>

subsection \<open>Errors\<close>

datatype error = KeyError string | AttributeError string | OtherException string

subsection \<open>Symbolic expressions and forms\<close>

text \<open>
  Leaves: a named coefficient (a solution field), a named argument (a test function),
  \<^verbatim>\<open>fe.Constant(c)\<close> and a Python float literal.
  \<open>Mult\<close>, \<open>Add\<close>, \<open>Sub\<close> and \<open>TrueDiv\<close> are the Python operators
  \<^verbatim>\<open>*\<close>, \<^verbatim>\<open>+\<close>, \<^verbatim>\<open>-\<close> and \<^verbatim>\<open>/\<close>.
\<close>

datatype expr =
    Coefficient string
  | Argument string
  | Constant real
  | FloatValue real
  | Grad expr
  | Div expr
  | Sym expr
  | Inner expr expr
  | Dot expr expr
  | Mult expr expr
  | Add expr expr
  | Sub expr expr
  | TrueDiv expr expr

text \<open>
  A measure is the integration rule over the domain: the quadrature weights, one for
  each quadrature point of the mesh. Their sum is the measure of the domain.
\<close>

datatype measure = Measure (weights: "real list")

text \<open>
  A form is a list of integrals. \<^verbatim>\<open>e*dx\<close> is the form with the single integral of
  \<open>e\<close>; \<^verbatim>\<open>+\<close> on forms joins the integrals of both.
\<close>

datatype integral = Integral (integrand: expr) (integral_measure: measure)

datatype form = Form (integrals: "integral list")

definition times_measure :: "expr \<Rightarrow> measure \<Rightarrow> form" where
  "times_measure e m = Form [Integral e m]"

definition form_add :: "form \<Rightarrow> form \<Rightarrow> form" where
  "form_add a b = Form (integrals a @ integrals b)"

subsection \<open>Meshes, elements, function spaces\<close>

datatype cell = Cell string

datatype mesh = Mesh (ufl_cell: cell) (mesh_name: string)

datatype element =
    FiniteElement string cell int
  | VectorElement string cell int
  | MixedElement "element list"

datatype function_space =
    FunctionSpace mesh element
  | IndexedSpace function_space nat

text \<open>\<^verbatim>\<open>fe.Function(V)\<close>: a new function of the space \<open>V\<close>.\<close>

datatype func = Function (function_space: function_space)

subsection \<open>The simulation object\<close>

text \<open>
  The data of a function is the list of its values at the quadrature points; the heap
  maps the address of a function to its data. A function of a mixed space is the list
  of the addresses of its components, pressure first, as the mixed element orders them.
\<close>

type_synonym addr = nat

datatype mixed_function = MixedFunction (components: "addr list")

text \<open>
  The attributes that the base class \<^verbatim>\<open>sapphire.simulation.Simulation\<close> sets and this
  module reads. Those subscripted with a field name are dictionaries.
\<close>

record base_simulation =
  solution :: mixed_function
  solution_fields :: "string \<rightharpoonup> expr"
  post_processing_solution_fields :: "string \<rightharpoonup> addr"
  test_functions :: "string \<rightharpoonup> expr"
  solution_space :: function_space
  solution_subspaces :: "string \<rightharpoonup> function_space"
  dx :: measure

text \<open>The subclass adds \<^verbatim>\<open>self.reynolds_number\<close>.\<close>

record simulation = base_simulation +
  reynolds_number :: expr

subsection \<open>The weak form\<close>

text \<open>
  \<^verbatim>\<open>
  def mass(self):
      u = self.solution_fields["u"]
      psi_p = self.test_functions["p"]
      return psi_p*div(u)*self.dx
  \<close>
\<close>

definition mass :: "simulation \<Rightarrow> error + form" where
  "mass self =
     (case solution_fields self ''u'' of
        None \<Rightarrow> Inl (KeyError ''u'')
      | Some u \<Rightarrow>
         (case test_functions self ''p'' of
            None \<Rightarrow> Inl (KeyError ''p'')
          | Some psi_p \<Rightarrow> Inr (times_measure (Mult psi_p (Div u)) (dx self))))"

text \<open>
  \<^verbatim>\<open>
  def momentum(self):
      p, u = self.solution_fields["p"], self.solution_fields["u"]
      Re = self.reynolds_number
      psi_u = self.test_functions["u"]
      return (dot(psi_u, grad(u)*u) - div(psi_u)*p + \
          2./Re*inner(sym(grad(psi_u)), sym(grad(u))))*self.dx
  \<close>
  Python's precedences make the integrand \<open>(a - b) + ((2./Re) * c)\<close>.
\<close>

definition momentum :: "simulation \<Rightarrow> error + form" where
  "momentum self =
     (case solution_fields self ''p'' of
        None \<Rightarrow> Inl (KeyError ''p'')
      | Some p \<Rightarrow>
         (case solution_fields self ''u'' of
            None \<Rightarrow> Inl (KeyError ''u'')
          | Some u \<Rightarrow>
             (let Re = reynolds_number self in
              case test_functions self ''u'' of
                None \<Rightarrow> Inl (KeyError ''u'')
              | Some psi_u \<Rightarrow>
                  Inr (times_measure
                    (Add (Sub (Dot psi_u (Mult (Grad u) u)) (Mult (Div psi_u) p))
                         (Mult (TrueDiv (FloatValue 2) Re)
                               (Inner (Sym (Grad psi_u)) (Sym (Grad u)))))
                    (dx self)))))"

text \<open>
  \<^verbatim>\<open>
  def weak_form_residual(self):
      return self.mass() + self.momentum()
  \<close>
  The left operand is evaluated first; an exception of either call leaves the method.
\<close>

definition weak_form_residual :: "simulation \<Rightarrow> error + form" where
  "weak_form_residual self =
     (case mass self of
        Inl e \<Rightarrow> Inl e
      | Inr m \<Rightarrow>
         (case momentum self of
            Inl e \<Rightarrow> Inl e
          | Inr n \<Rightarrow> Inr (form_add m n)))"

subsection \<open>The strong form\<close>

text \<open>
  \<^verbatim>\<open>
  def strong_residual(sim, solution):
      p, u = solution
      Re = sim.reynolds_number
      r_p = div(u)
      r_u = grad(u)*u + grad(p) - 2./Re*div(sym(grad(u)))
      return r_p, r_u
  \<close>
\<close>

fun strong_residual :: "simulation \<Rightarrow> expr \<times> expr \<Rightarrow> expr \<times> expr" where
  "strong_residual sim (p, u) =
     (let Re = reynolds_number sim;
          r_p = Div u;
          r_u = Sub (Add (Mult (Grad u) u) (Grad p))
                    (Mult (TrueDiv (FloatValue 2) Re) (Div (Sym (Grad u))))
      in (r_p, r_u))"

subsection \<open>The null space\<close>

text \<open>
  \<^verbatim>\<open>fe.VectorSpaceBasis(vecs=None, constant=False)\<close> is the basis made of the vectors
  \<open>vecs\<close> and, when \<^verbatim>\<open>constant\<close> is set, of the constant vector. In the tuple given
  to \<^verbatim>\<open>fe.MixedVectorSpaceBasis\<close>, an entry is either such a basis or a subspace of
  the mixed space, which stands for a component without a basis of its own.
\<close>

datatype basis_entry =
    VectorSpaceBasis (vecs: "func list") (with_constant: bool)
  | Subspace function_space

datatype mixed_basis = MixedVectorSpaceBasis function_space "basis_entry list"

text \<open>The number of vectors that an entry contributes to the null space.\<close>

fun entry_dimension :: "basis_entry \<Rightarrow> nat" where
  "entry_dimension (VectorSpaceBasis vs c) = length vs + (if c then 1 else 0)"
| "entry_dimension (Subspace V) = 0"

text \<open>
  \<^verbatim>\<open>
  def nullspace(self):
      return fe.MixedVectorSpaceBasis(
          self.solution_space,
          (fe.VectorSpaceBasis(constant=True),
           self.solution_subspaces["u"]))
  \<close>
\<close>

definition nullspace :: "simulation \<Rightarrow> error + mixed_basis" where
  "nullspace self =
     (case solution_subspaces self ''u'' of
        None \<Rightarrow> Inl (KeyError ''u'')
      | Some V_u \<Rightarrow>
          Inr (MixedVectorSpaceBasis (solution_space self)
                 [VectorSpaceBasis [] True, Subspace V_u]))"

subsection \<open>Construction\<close>

text \<open>
  A keyword argument is an object: a mesh, a function, or something else.
\<close>

datatype pyobj = MeshObj mesh | FunctionObj func | OtherObj string

type_synonym kwargs = "string \<rightharpoonup> pyobj"

text \<open>
  \<^verbatim>\<open>
  def __init__(self, *args,
          reynolds_number,
          taylor_hood_pressure_element_degree = 1,
          **kwargs):
      if "solution" not in kwargs:
          mesh = kwargs["mesh"]
          del kwargs["mesh"]
          d = taylor_hood_pressure_element_degree
          element = fe.MixedElement(
              fe.FiniteElement("P", mesh.ufl_cell(), d),
              fe.VectorElement("P", mesh.ufl_cell(), d + 1))
          kwargs["solution"] = fe.Function(fe.FunctionSpace(mesh, element))
      self.reynolds_number = fe.Constant(reynolds_number)
      super().__init__(*args, **kwargs)
  \<close>
  The constructor of the base class is a parameter: it receives the object as it is
  when the call is made (only \<^verbatim>\<open>reynolds_number\<close> is set), the positional arguments
  and the keyword arguments, and sets the attributes of the base class or raises.
  The constructors of the library (\<^verbatim>\<open>fe.FiniteElement\<close>, \<^verbatim>\<open>fe.VectorElement\<close>,
  \<^verbatim>\<open>fe.MixedElement\<close>, \<^verbatim>\<open>fe.FunctionSpace\<close>, \<^verbatim>\<open>fe.Function\<close>,
  \<^verbatim>\<open>fe.Constant\<close>) are the constructors of the datatypes: the term records the
  call and its arguments, and what the library checks of them is not part of the module.
  An omitted \<^verbatim>\<open>taylor_hood_pressure_element_degree\<close> is \<open>None\<close>, and the
  signature's default is then taken. An object under \<^verbatim>\<open>"mesh"\<close> that is not a mesh
  has no method \<^verbatim>\<open>ufl_cell\<close>.
\<close>

definition init ::
  "(expr \<Rightarrow> pyobj list \<Rightarrow> kwargs \<Rightarrow> error + base_simulation) \<Rightarrow>
   pyobj list \<Rightarrow> real \<Rightarrow> int option \<Rightarrow> kwargs \<Rightarrow> error + simulation" where
  "init base_init args reynolds_number' taylor_hood_pressure_element_degree kwargs =
     (let taylor_hood_pressure_element_degree =
            (case taylor_hood_pressure_element_degree of None \<Rightarrow> 1 | Some d \<Rightarrow> d);
          prepared =
            (if kwargs ''solution'' = None then
               (case kwargs ''mesh'' of
                  None \<Rightarrow> Inl (KeyError ''mesh'')
                | Some mesh \<Rightarrow>
                   (let kwargs = kwargs(''mesh'' := None);
                        d = taylor_hood_pressure_element_degree
                    in case mesh of
                         MeshObj mesh \<Rightarrow>
                           (let element = MixedElement
                                  [FiniteElement ''P'' (ufl_cell mesh) d,
                                   VectorElement ''P'' (ufl_cell mesh) (d + 1)]
                            in Inr (kwargs(''solution'' \<mapsto>
                                  FunctionObj (Function (FunctionSpace mesh element)))))
                       | _ \<Rightarrow> Inl (AttributeError ''ufl_cell'')))
             else Inr kwargs)
      in case prepared of
           Inl e \<Rightarrow> Inl e
         | Inr kwargs \<Rightarrow>
            (let self_reynolds_number = Constant reynolds_number'
             in case base_init self_reynolds_number args kwargs of
                  Inl e \<Rightarrow> Inl e
                | Inr b \<Rightarrow>
                    Inr (base_simulation.extend b
                           (simulation.fields self_reynolds_number))))"

subsection \<open>Solving\<close>

text \<open>
  The part of the interpreter's state that \<^verbatim>\<open>solve\<close> changes besides the object:
  the data of the functions and the standard output.
\<close>

record machine =
  heap :: "addr \<Rightarrow> real list"
  stdout :: "string list"

text \<open>
  \<^verbatim>\<open>fe.assemble(p*self.dx)\<close> for a scalar function \<open>p\<close>: the quadrature sum of the
  values of \<open>p\<close> with the weights of the measure.
\<close>

definition assemble_integral :: "real list \<Rightarrow> measure \<Rightarrow> real" where
  "assemble_integral p m = sum_list (map2 (*) p (weights m))"

text \<open>
  \<^verbatim>\<open>
  def solve(self):
      self.solution = super().solve()
      print("Subtracting mean pressure")
      p = self.post_processing_solution_fields["p"]
      mean_pressure = fe.assemble(p*self.dx)
      p = p.assign(p - mean_pressure)
      print("Done subtracting mean pressure")
      return self.solution
  \<close>
  The \<^verbatim>\<open>solve\<close> of the base class is a parameter: it returns a solution and the
  state it leaves, or raises. \<^verbatim>\<open>p.assign(p - mean_pressure)\<close> replaces each value of
  \<open>p\<close> by itself minus the number \<open>mean_pressure\<close>.
\<close>

definition solve ::
  "(simulation \<Rightarrow> machine \<Rightarrow> error + mixed_function \<times> simulation \<times> machine) \<Rightarrow>
   simulation \<Rightarrow> machine \<Rightarrow> error + mixed_function \<times> simulation \<times> machine" where
  "solve base_solve self m =
     (case base_solve self m of
        Inl e \<Rightarrow> Inl e
      | Inr (result, self1, m1) \<Rightarrow>
         (let self2 = self1\<lparr>solution := result\<rparr>;
              m2 = m1\<lparr>stdout := stdout m1 @ [''Subtracting mean pressure'']\<rparr>
          in case post_processing_solution_fields self2 ''p'' of
               None \<Rightarrow> Inl (KeyError ''p'')
             | Some p \<Rightarrow>
                (let mean_pressure = assemble_integral (heap m2 p) (dx self2);
                     m3 = m2\<lparr>heap := (heap m2)
                            (p := map (\<lambda>v. v - mean_pressure) (heap m2 p))\<rparr>;
                     m4 = m3\<lparr>stdout := stdout m3 @ [''Done subtracting mean pressure'']\<rparr>
                 in Inr (solution self2, self2, m4))))"

text \<open>
  The mean of a scalar function over the domain: its integral divided by the measure
  of the domain, which is the integral of the constant one.
\<close>

definition domain_measure :: "measure \<Rightarrow> real" where
  "domain_measure m = sum_list (weights m)"

definition domain_mean :: "real list \<Rightarrow> measure \<Rightarrow> real" where
  "domain_mean p m = assemble_integral p m / domain_measure m"

subsection \<open>A test configuration\<close>

text \<open>
  A rectangle of measure two, with two quadrature points of weight one, the pressure
  constant one, a base class whose \<^verbatim>\<open>solve\<close> returns the stored solution, and a
  base class whose constructor requires the keyword \<^verbatim>\<open>"solution"\<close>.
\<close>

definition example_mesh :: mesh where
  "example_mesh = Mesh (Cell ''triangle'') ''rectangle_2_by_1''"

definition example_space :: function_space where
  "example_space = FunctionSpace example_mesh
     (MixedElement [FiniteElement ''P'' (Cell ''triangle'') 1,
                    VectorElement ''P'' (Cell ''triangle'') 2])"

definition example_simulation :: simulation where
  "example_simulation =
     \<lparr>solution = MixedFunction [0, 1],
      solution_fields = [''p'' \<mapsto> Coefficient ''p'', ''u'' \<mapsto> Coefficient ''u''],
      post_processing_solution_fields = [''p'' \<mapsto> 0, ''u'' \<mapsto> 1],
      test_functions = [''p'' \<mapsto> Argument ''psi_p'', ''u'' \<mapsto> Argument ''psi_u''],
      solution_space = example_space,
      solution_subspaces = [''p'' \<mapsto> IndexedSpace example_space 0,
                            ''u'' \<mapsto> IndexedSpace example_space 1],
      dx = Measure [1, 1],
      reynolds_number = Constant 100\<rparr>"

definition example_machine :: machine where
  "example_machine =
     \<lparr>heap = (\<lambda>a. [])(0 := [1, 1], 1 := [3, 0, 3, 0]), stdout = []\<rparr>"

definition stored_solution_solve ::
  "simulation \<Rightarrow> machine \<Rightarrow> error + mixed_function \<times> simulation \<times> machine" where
  "stored_solution_solve self m = Inr (solution self, self, m)"

definition example_base_init :: "expr \<Rightarrow> pyobj list \<Rightarrow> kwargs \<Rightarrow> error + base_simulation" where
  "example_base_init self_reynolds_number args kwargs =
     (case kwargs ''solution'' of
        None \<Rightarrow> Inl (KeyError ''solution'')
      | Some s \<Rightarrow> Inr (base_simulation.truncate example_simulation))"

section \<open>Properties\<close>

subsection \<open>The forms that the methods return\<close>

lemma mass_eval:
  assumes "solution_fields sim ''u'' = Some u" and "test_functions sim ''p'' = Some psi_p"
  shows "mass sim = Inr (Form [Integral (Mult psi_p (Div u)) (dx sim)])"
  using assms by (simp add: mass_def times_measure_def)

lemma momentum_eval:
  assumes "solution_fields sim ''p'' = Some p" and "solution_fields sim ''u'' = Some u"
    and "test_functions sim ''u'' = Some psi_u"
  shows "momentum sim = Inr (Form [Integral
           (Add (Sub (Dot psi_u (Mult (Grad u) u)) (Mult (Div psi_u) p))
                (Mult (TrueDiv (FloatValue 2) (reynolds_number sim))
                      (Inner (Sym (Grad psi_u)) (Sym (Grad u)))))
           (dx sim)])"
  using assms by (simp add: momentum_def times_measure_def)

text \<open>A missing field or test function is the \<open>KeyError\<close> of the first failing lookup.\<close>

lemma mass_KeyError:
  "solution_fields sim ''u'' = None \<Longrightarrow> mass sim = Inl (KeyError ''u'')"
  "solution_fields sim ''u'' = Some u \<Longrightarrow> test_functions sim ''p'' = None \<Longrightarrow>
     mass sim = Inl (KeyError ''p'')"
  by (simp_all add: mass_def)

lemma weak_form_residual_raises:
  "mass sim = Inl e \<Longrightarrow> weak_form_residual sim = Inl e"
  "mass sim = Inr m \<Longrightarrow> momentum sim = Inl e \<Longrightarrow> weak_form_residual sim = Inl e"
  by (simp_all add: weak_form_residual_def)

text \<open>
  C1. When the simulation provides the solution fields \<open>p\<close> and \<open>u\<close>, the test
  function \<open>psi_u\<close> and the Reynolds number \<open>re\<close>, \<open>momentum\<close> returns the
  integral over the domain of
  \<open>dot(psi_u, grad(u)*u) - div(psi_u)*p + (2/re)*inner(sym(grad(psi_u)), sym(grad(u)))\<close>:
  the viscous term has the factor \<open>2/re\<close> and the symmetric gradient of both the test
  and the trial velocity.
\<close>

theorem momentum_residual:
  assumes "solution_fields sim ''p'' = Some p" and "solution_fields sim ''u'' = Some u"
    and "test_functions sim ''u'' = Some psi_u" and "reynolds_number sim = re"
  shows "momentum sim = Inr (Form [Integral
           (Add (Sub (Dot psi_u (Mult (Grad u) u)) (Mult (Div psi_u) p))
                (Mult (TrueDiv (FloatValue 2) re)
                      (Inner (Sym (Grad psi_u)) (Sym (Grad u)))))
           (dx sim)])"
  using assms momentum_eval [of sim p u psi_u] by simp

theorem momentum_residual_witness:
  "momentum example_simulation = Inr (Form [Integral
      (Add (Sub (Dot (Argument ''psi_u'') (Mult (Grad (Coefficient ''u'')) (Coefficient ''u'')))
                (Mult (Div (Argument ''psi_u'')) (Coefficient ''p'')))
           (Mult (TrueDiv (FloatValue 2) (Constant 100))
                 (Inner (Sym (Grad (Argument ''psi_u''))) (Sym (Grad (Coefficient ''u''))))))
      (Measure [1, 1])])"
  using momentum_residual [where sim = example_simulation and p = "Coefficient ''p''"
      and u = "Coefficient ''u''" and psi_u = "Argument ''psi_u''" and re = "Constant 100"]
  by (simp add: example_simulation_def)

text \<open>
  C4. When the simulation provides the solution field \<open>u\<close> and the test function
  \<open>psi_p\<close>, \<open>mass\<close> returns the integral over the domain of \<open>psi_p*div(u)\<close>, and
  its result is the same whatever the pressure field (present or not) and the Reynolds
  number are.
\<close>

theorem mass_residual:
  assumes "solution_fields sim ''u'' = Some u" and "test_functions sim ''p'' = Some psi_p"
  shows "mass sim = Inr (Form [Integral (Mult psi_p (Div u)) (dx sim)]) \<and>
         mass (sim\<lparr>solution_fields := (solution_fields sim)(''p'' := pv),
                   reynolds_number := re\<rparr>) = mass sim"
  using assms by (simp add: mass_def times_measure_def)

theorem mass_residual_witness:
  "mass example_simulation =
     Inr (Form [Integral (Mult (Argument ''psi_p'') (Div (Coefficient ''u''))) (Measure [1, 1])]) \<and>
   mass (example_simulation\<lparr>solution_fields :=
           (solution_fields example_simulation)(''p'' := None),
           reynolds_number := Constant 7\<rparr>) = mass example_simulation"
  using mass_residual [where sim = example_simulation and u = "Coefficient ''u''"
      and psi_p = "Argument ''psi_p''" and pv = None and re = "Constant 7"]
  by (simp add: example_simulation_def)

text \<open>
  C5. When the fields and test functions are there, \<open>mass\<close> and \<open>momentum\<close> return
  forms \<open>m\<close> and \<open>n\<close>, and \<open>weak_form_residual\<close> returns their sum: the single form
  with the integral of the mass residual followed by that of the momentum residual.
\<close>

theorem weak_form_residual_sum:
  assumes "solution_fields sim ''p'' = Some p" and "solution_fields sim ''u'' = Some u"
    and "test_functions sim ''p'' = Some psi_p" and "test_functions sim ''u'' = Some psi_u"
  shows "\<exists>m n. mass sim = Inr m \<and> momentum sim = Inr n \<and>
           weak_form_residual sim = Inr (form_add m n) \<and>
           form_add m n = Form
             [Integral (Mult psi_p (Div u)) (dx sim),
              Integral
               (Add (Sub (Dot psi_u (Mult (Grad u) u)) (Mult (Div psi_u) p))
                    (Mult (TrueDiv (FloatValue 2) (reynolds_number sim))
                          (Inner (Sym (Grad psi_u)) (Sym (Grad u)))))
               (dx sim)]"
  using assms by (simp add: weak_form_residual_def mass_eval momentum_eval form_add_def)

theorem weak_form_residual_sum_witness:
  "\<exists>m n. mass example_simulation = Inr m \<and> momentum example_simulation = Inr n \<and>
     weak_form_residual example_simulation = Inr (form_add m n) \<and>
     form_add m n = Form
       [Integral (Mult (Argument ''psi_p'') (Div (Coefficient ''u''))) (Measure [1, 1]),
        Integral
         (Add (Sub (Dot (Argument ''psi_u'')
                        (Mult (Grad (Coefficient ''u'')) (Coefficient ''u'')))
                   (Mult (Div (Argument ''psi_u'')) (Coefficient ''p'')))
              (Mult (TrueDiv (FloatValue 2) (Constant 100))
                    (Inner (Sym (Grad (Argument ''psi_u'')))
                           (Sym (Grad (Coefficient ''u''))))))
         (Measure [1, 1])]"
  using weak_form_residual_sum [where sim = example_simulation and p = "Coefficient ''p''"
      and u = "Coefficient ''u''" and psi_p = "Argument ''psi_p''"
      and psi_u = "Argument ''psi_u''"]
  by (simp add: example_simulation_def)

text \<open>
  C6. For a simulation with Reynolds number \<open>re\<close> and a solution pair \<open>(p, u)\<close>,
  \<open>strong_residual\<close> returns the pair of \<open>div(u)\<close> and
  \<open>grad(u)*u + grad(p) - (2/re)*div(sym(grad(u)))\<close>.
\<close>

theorem strong_residual_pair:
  "strong_residual (sim\<lparr>reynolds_number := re\<rparr>) (p, u) =
     (Div u,
      Sub (Add (Mult (Grad u) u) (Grad p))
          (Mult (TrueDiv (FloatValue 2) re) (Div (Sym (Grad u)))))"
  by simp

subsection \<open>The null space\<close>

text \<open>
  C3. \<open>nullspace\<close> returns a mixed basis over the solution space with two entries.
  The first, for the pressure, is the basis with no vector but the constant one, so it
  spans one dimension: the constants. The second, for the velocity, is the velocity
  subspace of the solution space itself, which contributes no vector.
\<close>

theorem nullspace_pressure_constant:
  assumes "solution_subspaces sim ''u'' = Some V_u"
  shows "nullspace sim =
           Inr (MixedVectorSpaceBasis (solution_space sim)
                  [VectorSpaceBasis [] True, Subspace V_u]) \<and>
         entry_dimension (VectorSpaceBasis [] True) = 1 \<and>
         entry_dimension (Subspace V_u) = 0"
  using assms by (simp add: nullspace_def)

theorem nullspace_pressure_constant_witness:
  "nullspace example_simulation =
     Inr (MixedVectorSpaceBasis example_space
            [VectorSpaceBasis [] True, Subspace (IndexedSpace example_space 1)]) \<and>
   entry_dimension (VectorSpaceBasis [] True) = 1 \<and>
   entry_dimension (Subspace (IndexedSpace example_space 1)) = 0"
  using nullspace_pressure_constant [where sim = example_simulation
      and V_u = "IndexedSpace example_space 1"]
  by (simp add: example_simulation_def)

subsection \<open>Construction\<close>

text \<open>
  The three ways through the constructor. \<open>map_sum\<close> passes an exception of the
  base class on and adds \<^verbatim>\<open>reynolds_number\<close> to the attributes it has set.
\<close>

lemma init_with_solution:
  assumes "kwargs ''solution'' \<noteq> None"
  shows "init base_init args re d kwargs =
           map_sum id (\<lambda>b. base_simulation.extend b (simulation.fields (Constant re)))
             (base_init (Constant re) args kwargs)"
proof -
  from assms obtain s where "kwargs ''solution'' = Some s"
    by blast
  then show ?thesis
    by (cases "base_init (Constant re) args kwargs") (simp_all add: init_def Let_def)
qed

lemma init_without_mesh:
  assumes "kwargs ''solution'' = None" and "kwargs ''mesh'' = None"
  shows "init base_init args re d kwargs = Inl (KeyError ''mesh'')"
  using assms by (simp add: init_def Let_def)

lemma init_with_mesh:
  assumes "kwargs ''solution'' = None" and "kwargs ''mesh'' = Some (MeshObj mesh)"
  shows "init base_init args re d kwargs =
           map_sum id (\<lambda>b. base_simulation.extend b (simulation.fields (Constant re)))
             (base_init (Constant re) args
                ((kwargs(''mesh'' := None))(''solution'' \<mapsto>
                   FunctionObj (Function (FunctionSpace mesh
                     (MixedElement
                        [FiniteElement ''P'' (ufl_cell mesh) (case d of None \<Rightarrow> 1 | Some k \<Rightarrow> k),
                         VectorElement ''P'' (ufl_cell mesh)
                           ((case d of None \<Rightarrow> 1 | Some k \<Rightarrow> k) + 1)]))))))"
  using assms by (simp add: init_def Let_def split: sum.split)

text \<open>
  C7. When no solution is supplied and the keyword \<^verbatim>\<open>"mesh"\<close> holds a mesh, the
  constructor with pressure degree \<open>d\<close> gives the base class a new function of the
  function space over that mesh with the mixed element of the scalar \<^verbatim>\<open>"P"\<close>
  element of degree \<open>d\<close> and the vector \<^verbatim>\<open>"P"\<close> element of degree \<open>d + 1\<close>,
  both on the cell of the mesh.
\<close>

theorem init_taylor_hood:
  assumes "kwargs ''solution'' = None" and "kwargs ''mesh'' = Some (MeshObj mesh)"
  shows "init base_init args re (Some d) kwargs =
           map_sum id (\<lambda>b. base_simulation.extend b (simulation.fields (Constant re)))
             (base_init (Constant re) args
                ((kwargs(''mesh'' := None))(''solution'' \<mapsto>
                   FunctionObj (Function (FunctionSpace mesh
                     (MixedElement
                        [FiniteElement ''P'' (ufl_cell mesh) d,
                         VectorElement ''P'' (ufl_cell mesh) (d + 1)]))))))"
  using init_with_mesh [OF assms, of base_init args re "Some d"] by simp

theorem init_taylor_hood_witness:
  "init example_base_init [] 100 (Some 3) [''mesh'' \<mapsto> MeshObj example_mesh] =
     map_sum id (\<lambda>b. base_simulation.extend b (simulation.fields (Constant 100)))
       (example_base_init (Constant 100) []
          [''solution'' \<mapsto> FunctionObj (Function (FunctionSpace example_mesh
             (MixedElement [FiniteElement ''P'' (Cell ''triangle'') 3,
                            VectorElement ''P'' (Cell ''triangle'') 4])))])"
  using init_taylor_hood [where kwargs = "[''mesh'' \<mapsto> MeshObj example_mesh]"
      and mesh = example_mesh and base_init = example_base_init and args = "[]"
      and re = 100 and d = 3]
  by (simp add: example_mesh_def)

text \<open>
  C8. When the degree is omitted, no solution is supplied and \<^verbatim>\<open>"mesh"\<close> holds a
  mesh, the mixed element has pressure degree 1 and velocity degree 2.
\<close>

theorem init_default_degree:
  assumes "kwargs ''solution'' = None" and "kwargs ''mesh'' = Some (MeshObj mesh)"
  shows "init base_init args re None kwargs =
           map_sum id (\<lambda>b. base_simulation.extend b (simulation.fields (Constant re)))
             (base_init (Constant re) args
                ((kwargs(''mesh'' := None))(''solution'' \<mapsto>
                   FunctionObj (Function (FunctionSpace mesh
                     (MixedElement
                        [FiniteElement ''P'' (ufl_cell mesh) 1,
                         VectorElement ''P'' (ufl_cell mesh) 2]))))))"
  using init_with_mesh [OF assms, of base_init args re None] by simp

theorem init_default_degree_witness:
  "init example_base_init [] 100 None [''mesh'' \<mapsto> MeshObj example_mesh] =
     map_sum id (\<lambda>b. base_simulation.extend b (simulation.fields (Constant 100)))
       (example_base_init (Constant 100) []
          [''solution'' \<mapsto> FunctionObj (Function (FunctionSpace example_mesh
             (MixedElement [FiniteElement ''P'' (Cell ''triangle'') 1,
                            VectorElement ''P'' (Cell ''triangle'') 2])))])"
  using init_default_degree [where kwargs = "[''mesh'' \<mapsto> MeshObj example_mesh]"
      and mesh = example_mesh and base_init = example_base_init and args = "[]"
      and re = 100]
  by (simp add: example_mesh_def)

text \<open>
  C10. For keyword arguments \<open>kw_s\<close> that contain \<^verbatim>\<open>"solution"\<close>, the
  constructor hands them to the base class as they are, whatever \<^verbatim>\<open>"mesh"\<close> is
  (absent, a mesh, or anything else): the mesh is not looked up and nothing is built.
  For keyword arguments \<open>kw_n\<close> with neither \<^verbatim>\<open>"solution"\<close> nor \<^verbatim>\<open>"mesh"\<close>,
  the result is \<open>KeyError ''mesh''\<close> whatever the constructor of the base class
  would do. For keyword arguments \<open>kw_m\<close> without \<^verbatim>\<open>"solution"\<close> and with a
  mesh, the base class receives \<open>kw'\<close>: \<open>kw_m\<close> without \<^verbatim>\<open>"mesh"\<close> and with
  the new function under \<^verbatim>\<open>"solution"\<close>.
\<close>

theorem init_keyword_arguments:
  assumes "kw_s ''solution'' = Some s"
    and "kw_n ''solution'' = None" and "kw_n ''mesh'' = None"
    and "kw_m ''solution'' = None" and "kw_m ''mesh'' = Some (MeshObj mesh)"
    and "kw' = (kw_m(''mesh'' := None))(''solution'' \<mapsto>
           FunctionObj (Function (FunctionSpace mesh
             (MixedElement
                [FiniteElement ''P'' (ufl_cell mesh) (case d of None \<Rightarrow> 1 | Some k \<Rightarrow> k),
                 VectorElement ''P'' (ufl_cell mesh)
                   ((case d of None \<Rightarrow> 1 | Some k \<Rightarrow> k) + 1)]))))"
  shows "init base_init args re d (kw_s(''mesh'' := mv)) =
           map_sum id (\<lambda>b. base_simulation.extend b (simulation.fields (Constant re)))
             (base_init (Constant re) args (kw_s(''mesh'' := mv))) \<and>
         init base_init args re d kw_n = Inl (KeyError ''mesh'') \<and>
         init base_init args re d kw_m =
           map_sum id (\<lambda>b. base_simulation.extend b (simulation.fields (Constant re)))
             (base_init (Constant re) args kw') \<and>
         kw' ''mesh'' = None \<and> kw' ''solution'' \<noteq> None \<and>
         dom kw' = insert ''solution'' (dom kw_m - {''mesh''})"
proof -
  have "(kw_s(''mesh'' := mv)) ''solution'' \<noteq> None"
    using assms(1) by simp
  then have "init base_init args re d (kw_s(''mesh'' := mv)) =
           map_sum id (\<lambda>b. base_simulation.extend b (simulation.fields (Constant re)))
             (base_init (Constant re) args (kw_s(''mesh'' := mv)))"
    by (rule init_with_solution)
  moreover have "init base_init args re d kw_n = Inl (KeyError ''mesh'')"
    using assms(2,3) by (rule init_without_mesh)
  moreover have "init base_init args re d kw_m =
           map_sum id (\<lambda>b. base_simulation.extend b (simulation.fields (Constant re)))
             (base_init (Constant re) args kw')"
    unfolding assms(6) using assms(4,5) by (rule init_with_mesh)
  moreover have "kw' ''mesh'' = None" "kw' ''solution'' \<noteq> None"
    by (simp_all add: assms(6))
  moreover have "dom kw' = insert ''solution'' (dom kw_m - {''mesh''})"
    by (simp add: assms(6))
  ultimately show ?thesis
    by blast
qed

theorem init_keyword_arguments_witness:
  "init example_base_init [] 100 None
      [''solution'' \<mapsto> FunctionObj (Function example_space)] =
     map_sum id (\<lambda>b. base_simulation.extend b (simulation.fields (Constant 100)))
       (example_base_init (Constant 100) []
          [''solution'' \<mapsto> FunctionObj (Function example_space)]) \<and>
   init example_base_init [] 100 None Map.empty = Inl (KeyError ''mesh'') \<and>
   init example_base_init [] 100 None [''mesh'' \<mapsto> MeshObj example_mesh] =
     map_sum id (\<lambda>b. base_simulation.extend b (simulation.fields (Constant 100)))
       (example_base_init (Constant 100) []
          [''solution'' \<mapsto> FunctionObj (Function example_space)])"
  using init_keyword_arguments [where kw_s = "[''solution'' \<mapsto> FunctionObj (Function example_space)]"
      and s = "FunctionObj (Function example_space)" and kw_n = Map.empty
      and kw_m = "[''mesh'' \<mapsto> MeshObj example_mesh]" and mesh = example_mesh
      and d = None and base_init = example_base_init and args = "[]" and re = 100
      and mv = None
      and kw' = "[''solution'' \<mapsto> FunctionObj (Function example_space)]"]
  by (simp add: example_mesh_def example_space_def)

subsection \<open>Solving\<close>

lemma assemble_integral_shift:
  assumes "length p = length (weights m)"
  shows "assemble_integral (map (\<lambda>v. v - c) p) m =
           assemble_integral p m - c * domain_measure m"
proof -
  have "length p = length ws \<Longrightarrow>
        sum_list (map2 (*) (map (\<lambda>v. v - c) p) ws) = sum_list (map2 (*) p ws) - c * sum_list ws"
    for ws :: "real list"
    by (induction p ws rule: list_induct2) (simp_all add: algebra_simps)
  with assms show ?thesis
    by (simp add: assemble_integral_def domain_measure_def)
qed

lemma solve_result:
  assumes "base_solve self m = Inr (result, self_b, m_b)"
    and "post_processing_solution_fields self_b ''p'' = Some p"
  shows "solve base_solve self m =
           Inr (result, self_b\<lparr>solution := result\<rparr>,
                m_b\<lparr>heap := (heap m_b)
                      (p := map (\<lambda>v. v - assemble_integral (heap m_b p) (dx self_b)) (heap m_b p)),
                    stdout := stdout m_b @ [''Subtracting mean pressure'',
                                           ''Done subtracting mean pressure'']\<rparr>)"
  using assms by (simp add: solve_def Let_def)

text \<open>
  The integral of the pressure after \<open>solve\<close> is the integral before, times one
  minus the measure of the domain: the number subtracted is the integral, not the
  integral divided by the measure. On a domain of measure one both are the same.
\<close>

lemma solve_pressure_integral:
  assumes "base_solve self m = Inr (result, self_b, m_b)"
    and "post_processing_solution_fields self_b ''p'' = Some p"
    and "length (heap m_b p) = length (weights (dx self_b))"
    and "solve base_solve self m = Inr (r, self', m')"
  shows "assemble_integral (heap m' p) (dx self') =
           assemble_integral (heap m_b p) (dx self_b) * (1 - domain_measure (dx self_b))"
  using assms(4) assms(3)
  unfolding solve_result [where base_solve = base_solve, OF assms(1,2)]
  by (auto simp add: assemble_integral_shift algebra_simps)

lemma solve_zero_mean_unit_domain:
  assumes "base_solve self m = Inr (result, self_b, m_b)"
    and "post_processing_solution_fields self_b ''p'' = Some p"
    and "length (heap m_b p) = length (weights (dx self_b))"
    and "domain_measure (dx self_b) = 1"
    and "solve base_solve self m = Inr (r, self', m')"
  shows "domain_mean (heap m' p) (dx self') = 0"
  using solve_pressure_integral [where base_solve = base_solve, OF assms(1,2,3,5)] assms(4)
  by (simp add: domain_mean_def)

text \<open>
  C2. On the rectangle of measure two with the pressure constant one (of mean one),
  where the pressure function of the post-processing fields is the first component of
  the returned solution, \<open>solve\<close> subtracts the integral two: the pressure of the
  returned solution is constant minus one, and its mean over the domain is minus one,
  not zero.
\<close>

theorem solve_mean_pressure_not_zero:
  "(case solve stored_solution_solve example_simulation example_machine of
      Inl e \<Rightarrow> False
    | Inr (result, self', m') \<Rightarrow>
        result = MixedFunction [0, 1] \<and>
        post_processing_solution_fields self' ''p'' = Some (components result ! 0) \<and>
        domain_measure (dx self') = 2 \<and>
        domain_mean (heap example_machine 0) (dx example_simulation) = 1 \<and>
        heap m' 0 = [-1, -1] \<and>
        domain_mean (heap m' 0) (dx self') = -1)"
  by (simp add: solve_def stored_solution_solve_def example_simulation_def
      example_machine_def Let_def assemble_integral_def domain_mean_def domain_measure_def)

text \<open>
  C9. When the \<open>solve\<close> of the base class returns and the post-processing fields
  hold the pressure function \<open>p\<close>, \<open>solve\<close> returns with the object as the base
  class left it (but for \<^verbatim>\<open>self.solution\<close>, set to the result), and with the data
  of every function other than \<open>p\<close> as the base class left it: in particular the
  velocity of the post-processing fields, a function other than \<open>p\<close>.
\<close>

theorem solve_frame:
  assumes "base_solve self m = Inr (result, self_b, m_b)"
    and "post_processing_solution_fields self_b ''p'' = Some p"
  shows "\<exists>m'. solve base_solve self m = Inr (result, self_b\<lparr>solution := result\<rparr>, m') \<and>
           (\<forall>a. a \<noteq> p \<longrightarrow> heap m' a = heap m_b a) \<and>
           (\<forall>q. post_processing_solution_fields self_b ''u'' = Some q \<longrightarrow> q \<noteq> p \<longrightarrow>
                  heap m' q = heap m_b q)"
  using solve_result [where base_solve = base_solve, OF assms] by simp

theorem solve_frame_witness:
  "\<exists>m'. solve stored_solution_solve example_simulation example_machine =
           Inr (MixedFunction [0, 1], example_simulation, m') \<and>
         heap m' 1 = [3, 0, 3, 0] \<and> heap example_machine 1 = [3, 0, 3, 0]"
proof -
  have b: "stored_solution_solve example_simulation example_machine =
             Inr (MixedFunction [0, 1], example_simulation, example_machine)"
    by (simp add: stored_solution_solve_def example_simulation_def)
  have p: "post_processing_solution_fields example_simulation ''p'' = Some 0"
    and u: "post_processing_solution_fields example_simulation ''u'' = Some 1"
    by (simp_all add: example_simulation_def)
  have s: "example_simulation\<lparr>solution := MixedFunction [0, 1]\<rparr> = example_simulation"
    by (simp add: example_simulation_def)
  from solve_frame [where base_solve = stored_solution_solve, OF b p] obtain m' where
    r: "solve stored_solution_solve example_simulation example_machine =
          Inr (MixedFunction [0, 1], example_simulation, m')"
    and f: "\<forall>q. post_processing_solution_fields example_simulation ''u'' = Some q \<longrightarrow> q \<noteq> 0 \<longrightarrow>
              heap m' q = heap example_machine q"
    unfolding s by blast
  from f u have "heap m' 1 = heap example_machine 1"
    by simp
  moreover have "heap example_machine 1 = [3, 0, 3, 0]"
    by (simp add: example_machine_def)
  ultimately show ?thesis
    using r by auto
qed


end
